theory Spec2Isabelle
  imports Complex_Main
begin

section \<open>Data model of \<^verbatim>\<open>chrono/physics/ChLinkMotor.h\<close>\<close>

text \<open>
  The header declares the motor classes of the constraint layer and defines their accessors
  inline. The embedding follows the class hierarchy with record extension:
  \<^verbatim>\<open>ChLinkMotor\<close> is the root, \<^verbatim>\<open>ChLinkMotorLinear\<close> and \<^verbatim>\<open>ChLinkMotorRotation\<close> extend it,
  and each of them has a position (angle), a speed and a force (torque) subclass.
  A \<^verbatim>\<open>double\<close> is read as a real number; none of the inline members performs arithmetic
  on one. A member function that mutates \<^verbatim>\<open>this\<close> takes the motor and returns the new one.
\<close>

subsection \<open>Collaborator types\<close>

text \<open>\<^verbatim>\<open>ChVector<>\<close>: the three components read by \<^verbatim>\<open>x()\<close>, \<^verbatim>\<open>y()\<close>, \<^verbatim>\<open>z()\<close>.\<close>

record ChVector =
  x :: real
  y :: real
  z :: real

text \<open>
  \<^verbatim>\<open>ChFunction\<close> is an abstract class of the library; the motors only call \<^verbatim>\<open>Get_y\<close> and
  \<^verbatim>\<open>Get_y_dx\<close> on it, so a function object is the pair of these two methods.
\<close>

record ChFunction =
  Get_y :: "real \<Rightarrow> real"
  Get_y_dx :: "real \<Rightarrow> real"

text \<open>
  \<^verbatim>\<open>std::shared_ptr<ChFunction>\<close>: either null or the address of a live function object.
  The objects themselves sit in a store that the motors do not own; two pointers are the
  same shared object exactly when they are equal.
\<close>

datatype ChFunction_ptr = nullptr | Ptr nat

type_synonym ChFunction_store = "nat \<Rightarrow> ChFunction"

text \<open>
  \<^verbatim>\<open>ChVariablesGeneric\<close>: the block of solver variables a speed motor holds by value, with
  its number of scalar unknowns and the mass on them.
\<close>

record ChVariablesGeneric =
  ndof :: nat
  mass :: real

text \<open>\<^verbatim>\<open>ChSystemDescriptor\<close>: the variable blocks registered with the solver, in order.\<close>

type_synonym ChSystemDescriptor = "ChVariablesGeneric list"

text \<open>The six relative degrees of freedom between the two frames of a link.\<close>

datatype DOF = TX | TY | TZ | RX | RY | RZ

subsection \<open>The class hierarchy\<close>

text \<open>
  \<^verbatim>\<open>ChLinkMotor : ChLinkMateGeneric\<close> adds no member of its own. The record holds the inherited
  members that the motors read: the simulation time returned by \<^verbatim>\<open>GetChTime()\<close>, the stored
  reactions \<^verbatim>\<open>react_force\<close> and \<^verbatim>\<open>react_torque\<close>, and the six constraint flags that the
  parameters \<^verbatim>\<open>mc_x\<close> .. \<^verbatim>\<open>mc_rz\<close> of the guide and spindle setters name.
\<close>

record ChLinkMotor =
  ChTime :: real
  react_force :: ChVector
  react_torque :: ChVector
  c_x :: bool
  c_y :: bool
  c_z :: bool
  c_rx :: bool
  c_ry :: bool
  c_rz :: bool

datatype GuideConstraint = FREE | PRISMATIC | SPHERICAL

record ChLinkMotorLinear = ChLinkMotor +
  mpos :: real
  mpos_dt :: real
  mpos_dtdt :: real

record ChLinkMotorLinearPosition = ChLinkMotorLinear +
  f_pos :: ChFunction_ptr
  pos_offset :: real

record ChLinkMotorLinearSpeed = ChLinkMotorLinear +
  f_speed :: ChFunction_ptr
  pos_offset :: real
  variable :: ChVariablesGeneric
  aux_dt :: real
  aux_dtdt :: real
  avoid_position_drift :: bool

record ChLinkMotorLinearForce = ChLinkMotorLinear +
  f_force :: ChFunction_ptr

datatype SpindleConstraint = FREE_spindle | REVOLUTE | CYLINDRICAL | OLDHAM

record ChLinkMotorRotation = ChLinkMotor +
  mrot :: real
  mrot_dt :: real
  mrot_dtdt :: real

record ChLinkMotorRotationAngle = ChLinkMotorRotation +
  f_rot :: ChFunction_ptr
  rot_offset :: real

record ChLinkMotorRotationSpeed = ChLinkMotorRotation +
  f_speed :: ChFunction_ptr
  rot_offset :: real
  variable :: ChVariablesGeneric
  aux_dt :: real
  aux_dtdt :: real
  avoid_angle_drift :: bool

record ChLinkMotorRotationTorque = ChLinkMotorRotation +
  f_torque :: ChFunction_ptr

section \<open>Members defined inline in the header\<close>

text \<open>\<^verbatim>\<open>GetChTime()\<close>, inherited: the current simulation time of the item.\<close>

definition GetChTime :: "'a ChLinkMotor_scheme \<Rightarrow> real" where
  "GetChTime m = ChTime m"

subsection \<open>\<^verbatim>\<open>ChLinkMotorLinear\<close>\<close>

definition GetActualPos :: "'a ChLinkMotorLinear_scheme \<Rightarrow> real" where
  "GetActualPos m = mpos m"

definition GetActualPos_dt :: "'a ChLinkMotorLinear_scheme \<Rightarrow> real" where
  "GetActualPos_dt m = mpos_dt m"

definition GetActualPos_dtdt :: "'a ChLinkMotorLinear_scheme \<Rightarrow> real" where
  "GetActualPos_dtdt m = mpos_dtdt m"

subsection \<open>\<^verbatim>\<open>ChLinkMotorLinearPosition\<close>\<close>

definition SetMotionFunction ::
  "ChFunction_ptr \<Rightarrow> ChLinkMotorLinearPosition \<Rightarrow> ChLinkMotorLinearPosition" where
  "SetMotionFunction mf m = m\<lparr>f_pos := mf\<rparr>"

definition GetMotionFunction :: "ChLinkMotorLinearPosition \<Rightarrow> ChFunction_ptr" where
  "GetMotionFunction m = f_pos m"

definition ChLinkMotorLinearPosition_SetMotionOffset ::
  "real \<Rightarrow> ChLinkMotorLinearPosition \<Rightarrow> ChLinkMotorLinearPosition" where
  "ChLinkMotorLinearPosition_SetMotionOffset mo m =
     m\<lparr>ChLinkMotorLinearPosition.pos_offset := mo\<rparr>"

definition ChLinkMotorLinearPosition_GetMotionOffset ::
  "ChLinkMotorLinearPosition \<Rightarrow> real" where
  "ChLinkMotorLinearPosition_GetMotionOffset m = ChLinkMotorLinearPosition.pos_offset m"

definition ChLinkMotorLinearPosition_GetActualForce ::
  "ChLinkMotorLinearPosition \<Rightarrow> real" where
  "ChLinkMotorLinearPosition_GetActualForce m = x (react_force m)"

subsection \<open>\<^verbatim>\<open>ChLinkMotorLinearSpeed\<close>\<close>

definition ChLinkMotorLinearSpeed_SetSpeedFunction ::
  "ChFunction_ptr \<Rightarrow> ChLinkMotorLinearSpeed \<Rightarrow> ChLinkMotorLinearSpeed" where
  "ChLinkMotorLinearSpeed_SetSpeedFunction mf m = m\<lparr>ChLinkMotorLinearSpeed.f_speed := mf\<rparr>"

definition ChLinkMotorLinearSpeed_GetSpeedFunction ::
  "ChLinkMotorLinearSpeed \<Rightarrow> ChFunction_ptr" where
  "ChLinkMotorLinearSpeed_GetSpeedFunction m = ChLinkMotorLinearSpeed.f_speed m"

definition ChLinkMotorLinearSpeed_SetMotionOffset ::
  "real \<Rightarrow> ChLinkMotorLinearSpeed \<Rightarrow> ChLinkMotorLinearSpeed" where
  "ChLinkMotorLinearSpeed_SetMotionOffset mo m =
     m\<lparr>ChLinkMotorLinearSpeed.pos_offset := mo\<rparr>"

definition ChLinkMotorLinearSpeed_GetMotionOffset :: "ChLinkMotorLinearSpeed \<Rightarrow> real" where
  "ChLinkMotorLinearSpeed_GetMotionOffset m = ChLinkMotorLinearSpeed.pos_offset m"

definition SetAvoidPositionDrift ::
  "bool \<Rightarrow> ChLinkMotorLinearSpeed \<Rightarrow> ChLinkMotorLinearSpeed" where
  "SetAvoidPositionDrift mb m = m\<lparr>avoid_position_drift := mb\<rparr>"

definition GetAvoidPositionDrift :: "ChLinkMotorLinearSpeed \<Rightarrow> bool" where
  "GetAvoidPositionDrift m = avoid_position_drift m"

definition ChLinkMotorLinearSpeed_GetActualForce :: "ChLinkMotorLinearSpeed \<Rightarrow> real" where
  "ChLinkMotorLinearSpeed_GetActualForce m = x (react_force m)"

text \<open>\<^verbatim>\<open>virtual int GetDOF() override { return 1; }\<close>\<close>

definition ChLinkMotorLinearSpeed_GetDOF :: "ChLinkMotorLinearSpeed \<Rightarrow> int" where
  "ChLinkMotorLinearSpeed_GetDOF m = 1"

subsection \<open>\<^verbatim>\<open>ChLinkMotorLinearForce\<close>\<close>

definition SetForceFunction ::
  "ChFunction_ptr \<Rightarrow> ChLinkMotorLinearForce \<Rightarrow> ChLinkMotorLinearForce" where
  "SetForceFunction mf m = m\<lparr>f_force := mf\<rparr>"

definition GetForceFunction :: "ChLinkMotorLinearForce \<Rightarrow> ChFunction_ptr" where
  "GetForceFunction m = f_force m"

text \<open>
  \<^verbatim>\<open>return this->f_force->Get_y(this->GetChTime());\<close> The arrow dereferences the shared
  pointer; on a null pointer the call has no result, which is the value \<open>None\<close>.
\<close>

definition ChLinkMotorLinearForce_GetActualForce ::
  "ChFunction_store \<Rightarrow> ChLinkMotorLinearForce \<Rightarrow> real option" where
  "ChLinkMotorLinearForce_GetActualForce st m =
     (case f_force m of
        nullptr \<Rightarrow> None
      | Ptr a \<Rightarrow> Some (Get_y (st a) (GetChTime m)))"

subsection \<open>\<^verbatim>\<open>ChLinkMotorRotation\<close>\<close>

definition GetActualRot :: "'a ChLinkMotorRotation_scheme \<Rightarrow> real" where
  "GetActualRot m = mrot m"

definition GetActualRot_dt :: "'a ChLinkMotorRotation_scheme \<Rightarrow> real" where
  "GetActualRot_dt m = mrot_dt m"

definition GetActualRot_dtdt :: "'a ChLinkMotorRotation_scheme \<Rightarrow> real" where
  "GetActualRot_dtdt m = mrot_dtdt m"

subsection \<open>\<^verbatim>\<open>ChLinkMotorRotationAngle\<close>\<close>

definition SetAngleFunction ::
  "ChFunction_ptr \<Rightarrow> ChLinkMotorRotationAngle \<Rightarrow> ChLinkMotorRotationAngle" where
  "SetAngleFunction mf m = m\<lparr>f_rot := mf\<rparr>"

definition GetAngleFunction :: "ChLinkMotorRotationAngle \<Rightarrow> ChFunction_ptr" where
  "GetAngleFunction m = f_rot m"

definition ChLinkMotorRotationAngle_SetMotionOffset ::
  "real \<Rightarrow> ChLinkMotorRotationAngle \<Rightarrow> ChLinkMotorRotationAngle" where
  "ChLinkMotorRotationAngle_SetMotionOffset mo m =
     m\<lparr>ChLinkMotorRotationAngle.rot_offset := mo\<rparr>"

definition ChLinkMotorRotationAngle_GetMotionOffset ::
  "ChLinkMotorRotationAngle \<Rightarrow> real" where
  "ChLinkMotorRotationAngle_GetMotionOffset m = ChLinkMotorRotationAngle.rot_offset m"

definition ChLinkMotorRotationAngle_GetActualTorque ::
  "ChLinkMotorRotationAngle \<Rightarrow> real" where
  "ChLinkMotorRotationAngle_GetActualTorque m = x (react_torque m)"

subsection \<open>\<^verbatim>\<open>ChLinkMotorRotationSpeed\<close>\<close>

definition ChLinkMotorRotationSpeed_SetSpeedFunction ::
  "ChFunction_ptr \<Rightarrow> ChLinkMotorRotationSpeed \<Rightarrow> ChLinkMotorRotationSpeed" where
  "ChLinkMotorRotationSpeed_SetSpeedFunction mf m =
     m\<lparr>ChLinkMotorRotationSpeed.f_speed := mf\<rparr>"

definition ChLinkMotorRotationSpeed_GetSpeedFunction ::
  "ChLinkMotorRotationSpeed \<Rightarrow> ChFunction_ptr" where
  "ChLinkMotorRotationSpeed_GetSpeedFunction m = ChLinkMotorRotationSpeed.f_speed m"

definition SetAngleOffset ::
  "real \<Rightarrow> ChLinkMotorRotationSpeed \<Rightarrow> ChLinkMotorRotationSpeed" where
  "SetAngleOffset mo m = m\<lparr>ChLinkMotorRotationSpeed.rot_offset := mo\<rparr>"

definition GetAngleOffset :: "ChLinkMotorRotationSpeed \<Rightarrow> real" where
  "GetAngleOffset m = ChLinkMotorRotationSpeed.rot_offset m"

definition SetAvoidAngleDrift ::
  "bool \<Rightarrow> ChLinkMotorRotationSpeed \<Rightarrow> ChLinkMotorRotationSpeed" where
  "SetAvoidAngleDrift mb m = m\<lparr>avoid_angle_drift := mb\<rparr>"

definition GetAvoidAngleDrift :: "ChLinkMotorRotationSpeed \<Rightarrow> bool" where
  "GetAvoidAngleDrift m = avoid_angle_drift m"

definition ChLinkMotorRotationSpeed_GetActualTorque ::
  "ChLinkMotorRotationSpeed \<Rightarrow> real" where
  "ChLinkMotorRotationSpeed_GetActualTorque m = x (react_torque m)"

definition ChLinkMotorRotationSpeed_GetDOF :: "ChLinkMotorRotationSpeed \<Rightarrow> int" where
  "ChLinkMotorRotationSpeed_GetDOF m = 1"

subsection \<open>\<^verbatim>\<open>ChLinkMotorRotationTorque\<close>\<close>

definition SetTorqueFunction ::
  "ChFunction_ptr \<Rightarrow> ChLinkMotorRotationTorque \<Rightarrow> ChLinkMotorRotationTorque" where
  "SetTorqueFunction mf m = m\<lparr>f_torque := mf\<rparr>"

definition GetTorqueFunction :: "ChLinkMotorRotationTorque \<Rightarrow> ChFunction_ptr" where
  "GetTorqueFunction m = f_torque m"

definition ChLinkMotorRotationTorque_GetActualTorque ::
  "ChFunction_store \<Rightarrow> ChLinkMotorRotationTorque \<Rightarrow> real option" where
  "ChLinkMotorRotationTorque_GetActualTorque st m =
     (case f_torque m of
        nullptr \<Rightarrow> None
      | Ptr a \<Rightarrow> Some (Get_y (st a) (GetChTime m)))"

section \<open>Members declared in the header and defined elsewhere\<close>

text \<open>
  The header only declares the constructors, \<^verbatim>\<open>Update\<close>, \<^verbatim>\<open>IntLoadConstraint_Ct\<close>,
  \<^verbatim>\<open>InjectVariables\<close> and the guide and spindle setters; their bodies are in the
  implementation file of the class. Each definition of this section follows the
  specification of the constraint layer and the documentation comments of the header, and
  says which sentence it follows.
\<close>

subsection \<open>The constraint row of the position and angle motors\<close>

text \<open>
  Modelled from the spec: the body of \<^verbatim>\<open>ChLinkMotorLinearPosition::Update\<close> is missing.
  "Each assembly pass contributes one extra constraint row whose violation is
  \<open>actual(t) - f(t) - offset\<close>". The actual displacement is the one \<^verbatim>\<open>GetActualPos\<close>
  reports, the time is \<^verbatim>\<open>GetChTime()\<close>, and \<open>f\<close> is reached through \<^verbatim>\<open>f_pos\<close>.
\<close>

definition ChLinkMotorLinearPosition_Update_C ::
  "ChFunction_store \<Rightarrow> ChLinkMotorLinearPosition \<Rightarrow> real option" where
  "ChLinkMotorLinearPosition_Update_C st m =
     (case f_pos m of
        nullptr \<Rightarrow> None
      | Ptr a \<Rightarrow> Some (GetActualPos m - Get_y (st a) (GetChTime m)
                        - ChLinkMotorLinearPosition.pos_offset m))"

text \<open>
  Modelled from the spec: the body of \<^verbatim>\<open>ChLinkMotorLinearPosition::IntLoadConstraint_Ct\<close> is
  missing. The row's "Jacobian time-derivative term (\<open>Ct\<close>) is \<open>-f'(t)\<close>".
\<close>

definition ChLinkMotorLinearPosition_IntLoadConstraint_Ct ::
  "ChFunction_store \<Rightarrow> ChLinkMotorLinearPosition \<Rightarrow> real option" where
  "ChLinkMotorLinearPosition_IntLoadConstraint_Ct st m =
     (case f_pos m of
        nullptr \<Rightarrow> None
      | Ptr a \<Rightarrow> Some (- Get_y_dx (st a) (GetChTime m)))"

text \<open>
  Modelled from the spec: the body of \<^verbatim>\<open>ChLinkMotorRotationAngle::Update\<close> is missing; the
  same sentence, for the angle about the spindle.
\<close>

definition ChLinkMotorRotationAngle_Update_C ::
  "ChFunction_store \<Rightarrow> ChLinkMotorRotationAngle \<Rightarrow> real option" where
  "ChLinkMotorRotationAngle_Update_C st m =
     (case f_rot m of
        nullptr \<Rightarrow> None
      | Ptr a \<Rightarrow> Some (GetActualRot m - Get_y (st a) (GetChTime m)
                        - ChLinkMotorRotationAngle.rot_offset m))"

text \<open>
  Modelled from the spec: the body of \<^verbatim>\<open>ChLinkMotorRotationAngle::IntLoadConstraint_Ct\<close> is
  missing; \<open>Ct\<close> is \<open>-f'(t)\<close>.
\<close>

definition ChLinkMotorRotationAngle_IntLoadConstraint_Ct ::
  "ChFunction_store \<Rightarrow> ChLinkMotorRotationAngle \<Rightarrow> real option" where
  "ChLinkMotorRotationAngle_IntLoadConstraint_Ct st m =
     (case f_rot m of
        nullptr \<Rightarrow> None
      | Ptr a \<Rightarrow> Some (- Get_y_dx (st a) (GetChTime m)))"

subsection \<open>Construction of the speed motors and their variable block\<close>

text \<open>
  Modelled from the spec: the body of the default constructor \<^verbatim>\<open>ChLinkMotorLinearSpeed()\<close> is
  missing. The auxiliary variable is "created when a Speed-mode motor is constructed", its
  block has "mass = 1 on the auxiliary DOF", and "Default drift-avoidance = enabled" (the
  header says "Default, true" of the flag). The argument \<open>raw\<close> stands for the members on
  whose initial value neither text says anything.
\<close>

definition ChLinkMotorLinearSpeed_ctor :: "ChLinkMotorLinearSpeed \<Rightarrow> ChLinkMotorLinearSpeed" where
  "ChLinkMotorLinearSpeed_ctor raw =
     raw\<lparr>ChLinkMotorLinearSpeed.variable := \<lparr>ndof = 1, mass = 1\<rparr>,
         avoid_position_drift := True\<rparr>"

text \<open>
  Modelled from the spec: the body of the default constructor \<^verbatim>\<open>ChLinkMotorRotationSpeed()\<close>
  is missing; the same sentences.
\<close>

definition ChLinkMotorRotationSpeed_ctor ::
  "ChLinkMotorRotationSpeed \<Rightarrow> ChLinkMotorRotationSpeed" where
  "ChLinkMotorRotationSpeed_ctor raw =
     raw\<lparr>ChLinkMotorRotationSpeed.variable := \<lparr>ndof = 1, mass = 1\<rparr>,
         avoid_angle_drift := True\<rparr>"

text \<open>
  Modelled from the spec: the body of \<^verbatim>\<open>ChLinkMotorLinearSpeed::InjectVariables\<close> is missing.
  The motor has "an extra variable block registered with the solver": the call appends the
  motor's own block to the descriptor.
\<close>

definition ChLinkMotorLinearSpeed_InjectVariables ::
  "ChLinkMotorLinearSpeed \<Rightarrow> ChSystemDescriptor \<Rightarrow> ChSystemDescriptor" where
  "ChLinkMotorLinearSpeed_InjectVariables m mdescriptor =
     mdescriptor @ [ChLinkMotorLinearSpeed.variable m]"

text \<open>
  Modelled from the spec: the body of \<^verbatim>\<open>ChLinkMotorRotationSpeed::InjectVariables\<close> is
  missing; the same sentence.
\<close>

definition ChLinkMotorRotationSpeed_InjectVariables ::
  "ChLinkMotorRotationSpeed \<Rightarrow> ChSystemDescriptor \<Rightarrow> ChSystemDescriptor" where
  "ChLinkMotorRotationSpeed_InjectVariables m mdescriptor =
     mdescriptor @ [ChLinkMotorRotationSpeed.variable m]"

subsection \<open>The life of a speed motor\<close>

text \<open>
  After construction, client code acts on a speed motor through the public setters of the
  header. A call sequence is run from left to right.
\<close>

datatype ChLinkMotorLinearSpeed_call =
    LS_SetSpeedFunction ChFunction_ptr
  | LS_SetMotionOffset real
  | LS_SetAvoidPositionDrift bool

fun ChLinkMotorLinearSpeed_do ::
  "ChLinkMotorLinearSpeed_call \<Rightarrow> ChLinkMotorLinearSpeed \<Rightarrow> ChLinkMotorLinearSpeed" where
  "ChLinkMotorLinearSpeed_do (LS_SetSpeedFunction mf) m =
     ChLinkMotorLinearSpeed_SetSpeedFunction mf m"
| "ChLinkMotorLinearSpeed_do (LS_SetMotionOffset mo) m =
     ChLinkMotorLinearSpeed_SetMotionOffset mo m"
| "ChLinkMotorLinearSpeed_do (LS_SetAvoidPositionDrift mb) m = SetAvoidPositionDrift mb m"

definition ChLinkMotorLinearSpeed_run ::
  "ChLinkMotorLinearSpeed_call list \<Rightarrow> ChLinkMotorLinearSpeed \<Rightarrow> ChLinkMotorLinearSpeed" where
  "ChLinkMotorLinearSpeed_run cs m = fold ChLinkMotorLinearSpeed_do cs m"

fun LS_sets_drift :: "ChLinkMotorLinearSpeed_call \<Rightarrow> bool" where
  "LS_sets_drift (LS_SetAvoidPositionDrift mb) = True"
| "LS_sets_drift (LS_SetSpeedFunction mf) = False"
| "LS_sets_drift (LS_SetMotionOffset mo) = False"

datatype ChLinkMotorRotationSpeed_call =
    RS_SetSpeedFunction ChFunction_ptr
  | RS_SetAngleOffset real
  | RS_SetAvoidAngleDrift bool

fun ChLinkMotorRotationSpeed_do ::
  "ChLinkMotorRotationSpeed_call \<Rightarrow> ChLinkMotorRotationSpeed \<Rightarrow> ChLinkMotorRotationSpeed"
  where
  "ChLinkMotorRotationSpeed_do (RS_SetSpeedFunction mf) m =
     ChLinkMotorRotationSpeed_SetSpeedFunction mf m"
| "ChLinkMotorRotationSpeed_do (RS_SetAngleOffset mo) m = SetAngleOffset mo m"
| "ChLinkMotorRotationSpeed_do (RS_SetAvoidAngleDrift mb) m = SetAvoidAngleDrift mb m"

definition ChLinkMotorRotationSpeed_run ::
  "ChLinkMotorRotationSpeed_call list \<Rightarrow> ChLinkMotorRotationSpeed \<Rightarrow> ChLinkMotorRotationSpeed"
  where
  "ChLinkMotorRotationSpeed_run cs m = fold ChLinkMotorRotationSpeed_do cs m"

fun RS_sets_drift :: "ChLinkMotorRotationSpeed_call \<Rightarrow> bool" where
  "RS_sets_drift (RS_SetAvoidAngleDrift mb) = True"
| "RS_sets_drift (RS_SetSpeedFunction mf) = False"
| "RS_sets_drift (RS_SetAngleOffset mo) = False"

subsection \<open>Guide and spindle constraints\<close>

text \<open>
  Modelled from the spec: the body of
  \<^verbatim>\<open>ChLinkMotorLinear::SetGuideConstraint(bool mc_y, bool mc_z, bool mc_rx, bool mc_ry, bool mc_rz)\<close>
  is missing. The lock-pattern is "over the remaining 5 relative DOF", and the header says
  of the setter that it "sets which movements are constrained" and that "the x direction is
  the motorized one, and is never affected by this option": each parameter sets the flag of
  the movement it names.
\<close>

definition SetGuideConstraint ::
  "bool \<Rightarrow> bool \<Rightarrow> bool \<Rightarrow> bool \<Rightarrow> bool \<Rightarrow>
   'a ChLinkMotorLinear_scheme \<Rightarrow> 'a ChLinkMotorLinear_scheme" where
  "SetGuideConstraint mc_y mc_z mc_rx mc_ry mc_rz m =
     m\<lparr>c_y := mc_y, c_z := mc_z, c_rx := mc_rx, c_ry := mc_ry, c_rz := mc_rz\<rparr>"

text \<open>
  Modelled from the spec: the body of
  \<^verbatim>\<open>ChLinkMotorLinear::SetGuideConstraint(const GuideConstraint mconstraint)\<close> is missing, and
  neither text says which movements a variant locks. The table \<open>pattern\<close> from variants to
  the five flags is therefore an argument; the variant is applied through the flag setter.
\<close>

definition SetGuideConstraint_variant ::
  "(GuideConstraint \<Rightarrow> bool \<times> bool \<times> bool \<times> bool \<times> bool) \<Rightarrow> GuideConstraint \<Rightarrow>
   'a ChLinkMotorLinear_scheme \<Rightarrow> 'a ChLinkMotorLinear_scheme" where
  "SetGuideConstraint_variant pattern mconstraint m =
     (case pattern mconstraint of
        (mc_y, mc_z, mc_rx, mc_ry, mc_rz) \<Rightarrow> SetGuideConstraint mc_y mc_z mc_rx mc_ry mc_rz m)"

text \<open>The movements that the guide of a linear motor locks: those of its five flags.\<close>

definition guide_locked :: "'a ChLinkMotorLinear_scheme \<Rightarrow> DOF set" where
  "guide_locked m =
     (if c_y m then {TY} else {}) \<union> (if c_z m then {TZ} else {}) \<union>
     (if c_rx m then {RX} else {}) \<union> (if c_ry m then {RY} else {}) \<union>
     (if c_rz m then {RZ} else {})"

text \<open>
  Modelled from the spec: the body of
  \<^verbatim>\<open>ChLinkMotorRotation::SetSpindleConstraint(bool mc_x, bool mc_y, bool mc_z, bool mc_rx, bool mc_ry)\<close>
  is missing. The header says of it that "the Z direction is the motorized one, and is never
  affected by this option": each parameter sets the flag of the movement it names.
\<close>

definition SetSpindleConstraint ::
  "bool \<Rightarrow> bool \<Rightarrow> bool \<Rightarrow> bool \<Rightarrow> bool \<Rightarrow>
   'a ChLinkMotorRotation_scheme \<Rightarrow> 'a ChLinkMotorRotation_scheme" where
  "SetSpindleConstraint mc_x mc_y mc_z mc_rx mc_ry m =
     m\<lparr>c_x := mc_x, c_y := mc_y, c_z := mc_z, c_rx := mc_rx, c_ry := mc_ry\<rparr>"

text \<open>
  Modelled from the spec: the body of
  \<^verbatim>\<open>ChLinkMotorRotation::SetSpindleConstraint(const SpindleConstraint mconstraint)\<close> is
  missing; as for the guide, the table from variants to flags is an argument.
\<close>

definition SetSpindleConstraint_variant ::
  "(SpindleConstraint \<Rightarrow> bool \<times> bool \<times> bool \<times> bool \<times> bool) \<Rightarrow> SpindleConstraint \<Rightarrow>
   'a ChLinkMotorRotation_scheme \<Rightarrow> 'a ChLinkMotorRotation_scheme" where
  "SetSpindleConstraint_variant pattern mconstraint m =
     (case pattern mconstraint of
        (mc_x, mc_y, mc_z, mc_rx, mc_ry) \<Rightarrow> SetSpindleConstraint mc_x mc_y mc_z mc_rx mc_ry m)"

text \<open>The movements that the spindle of a rotational motor locks.\<close>

definition spindle_locked :: "'a ChLinkMotorRotation_scheme \<Rightarrow> DOF set" where
  "spindle_locked m =
     (if c_x m then {TX} else {}) \<union> (if c_y m then {TY} else {}) \<union>
     (if c_z m then {TZ} else {}) \<union> (if c_rx m then {RX} else {}) \<union>
     (if c_ry m then {RY} else {})"

section \<open>Sample objects\<close>

text \<open>
  A store with a ramp \<open>f(t) = 2 t\<close> at address 0 and the constant 5 everywhere else, and one
  motor of each force-driven class at simulation time 3 with non-zero stored reactions.
\<close>

definition sample_store :: ChFunction_store where
  "sample_store a =
     (if a = 0 then \<lparr>Get_y = (\<lambda>t. 2 * t), Get_y_dx = (\<lambda>t. 2)\<rparr>
      else \<lparr>Get_y = (\<lambda>t. 5), Get_y_dx = (\<lambda>t. 0)\<rparr>)"

definition sample_force_motor :: ChLinkMotorLinearForce where
  "sample_force_motor =
     \<lparr>ChTime = 3, react_force = \<lparr>x = 7, y = 0, z = 0\<rparr>,
      react_torque = \<lparr>x = 0, y = 0, z = 0\<rparr>,
      c_x = False, c_y = True, c_z = True, c_rx = True, c_ry = True, c_rz = True,
      mpos = 1, mpos_dt = 0, mpos_dtdt = 0, f_force = Ptr 0\<rparr>"

definition sample_torque_motor :: ChLinkMotorRotationTorque where
  "sample_torque_motor =
     \<lparr>ChTime = 3, react_force = \<lparr>x = 0, y = 0, z = 0\<rparr>,
      react_torque = \<lparr>x = 7, y = 0, z = 0\<rparr>,
      c_x = True, c_y = True, c_z = True, c_rx = True, c_ry = True, c_rz = False,
      mrot = 1, mrot_dt = 0, mrot_dtdt = 0, f_torque = Ptr 1\<rparr>"

text \<open>
  A position motor at time 3 driven by the ramp, with offset 1 and an actual displacement
  half a thousandth beyond the target; an angle motor driven by the constant, exactly on
  target.
\<close>

definition sample_position_motor :: ChLinkMotorLinearPosition where
  "sample_position_motor =
     \<lparr>ChTime = 3, react_force = \<lparr>x = 7, y = 0, z = 0\<rparr>,
      react_torque = \<lparr>x = 0, y = 0, z = 0\<rparr>,
      c_x = False, c_y = True, c_z = True, c_rx = True, c_ry = True, c_rz = True,
      mpos = 7 + 1 / 2000, mpos_dt = 2, mpos_dtdt = 0,
      f_pos = Ptr 0, ChLinkMotorLinearPosition.pos_offset = 1\<rparr>"

definition sample_angle_motor :: ChLinkMotorRotationAngle where
  "sample_angle_motor =
     \<lparr>ChTime = 3, react_force = \<lparr>x = 0, y = 0, z = 0\<rparr>,
      react_torque = \<lparr>x = 7, y = 0, z = 0\<rparr>,
      c_x = True, c_y = True, c_z = True, c_rx = True, c_ry = True, c_rz = False,
      mrot = 11 / 2, mrot_dt = 0, mrot_dtdt = 0,
      f_rot = Ptr 1, ChLinkMotorRotationAngle.rot_offset = 1 / 2\<rparr>"

text \<open>
  Two speed motors at time 3. Their flag is off and their variable block is empty, so that
  the constructors have something to set.
\<close>

definition sample_linear_speed_motor :: ChLinkMotorLinearSpeed where
  "sample_linear_speed_motor =
     \<lparr>ChTime = 3, react_force = \<lparr>x = 7, y = 8, z = 9\<rparr>,
      react_torque = \<lparr>x = 0, y = 0, z = 0\<rparr>,
      c_x = False, c_y = True, c_z = True, c_rx = True, c_ry = True, c_rz = True,
      mpos = 1, mpos_dt = 6, mpos_dtdt = 0,
      ChLinkMotorLinearSpeed.f_speed = Ptr 0, ChLinkMotorLinearSpeed.pos_offset = 0,
      ChLinkMotorLinearSpeed.variable = \<lparr>ndof = 0, mass = 0\<rparr>,
      ChLinkMotorLinearSpeed.aux_dt = 0, ChLinkMotorLinearSpeed.aux_dtdt = 0,
      avoid_position_drift = False\<rparr>"

definition sample_rotation_speed_motor :: ChLinkMotorRotationSpeed where
  "sample_rotation_speed_motor =
     \<lparr>ChTime = 3, react_force = \<lparr>x = 0, y = 0, z = 0\<rparr>,
      react_torque = \<lparr>x = 4, y = 5, z = 6\<rparr>,
      c_x = True, c_y = True, c_z = True, c_rx = True, c_ry = True, c_rz = False,
      mrot = 1, mrot_dt = 5, mrot_dtdt = 0,
      f_speed = Ptr 1, rot_offset = 0, variable = \<lparr>ndof = 0, mass = 0\<rparr>,
      aux_dt = 0, aux_dtdt = 0, avoid_angle_drift = False\<rparr>"

section \<open>Force and torque motors\<close>

lemma GetActualForce_null:
  "ChLinkMotorLinearForce_GetActualForce st (SetForceFunction nullptr m) = None"
  by (simp add: ChLinkMotorLinearForce_GetActualForce_def SetForceFunction_def)

lemma GetActualTorque_null:
  "ChLinkMotorRotationTorque_GetActualTorque st (SetTorqueFunction nullptr m) = None"
  by (simp add: ChLinkMotorRotationTorque_GetActualTorque_def SetTorqueFunction_def)

text \<open>
  C3. For a force motor whose force function is the object at address \<open>a\<close>, and a torque
  motor whose torque function is the object at address \<open>b\<close>, the reported reaction is the
  value of that function at the current simulation time, whatever the other members hold:
  overwriting the stored reactions (the solver's multipliers) and the recorded relative
  position, speed and acceleration of the two bodies leaves the reported value unchanged.
\<close>

theorem force_motor_reaction_exact:
  assumes "f_force m = Ptr a" and "f_torque r = Ptr b"
  shows "ChLinkMotorLinearForce_GetActualForce st m = Some (Get_y (st a) (GetChTime m))
       \<and> ChLinkMotorRotationTorque_GetActualTorque st r = Some (Get_y (st b) (GetChTime r))
       \<and> ChLinkMotorLinearForce_GetActualForce st
           (m\<lparr>react_force := rf, react_torque := rt, mpos := p, mpos_dt := v, mpos_dtdt := acc\<rparr>)
         = ChLinkMotorLinearForce_GetActualForce st m
       \<and> ChLinkMotorRotationTorque_GetActualTorque st
           (r\<lparr>react_force := rf, react_torque := rt, mrot := p, mrot_dt := v, mrot_dtdt := acc\<rparr>)
         = ChLinkMotorRotationTorque_GetActualTorque st r"
  using assms
  by (simp add: ChLinkMotorLinearForce_GetActualForce_def
      ChLinkMotorRotationTorque_GetActualTorque_def GetChTime_def)

theorem force_motor_reaction_exact_witness:
  "f_force sample_force_motor = Ptr 0 \<and> f_torque sample_torque_motor = Ptr 1
   \<and> ChLinkMotorLinearForce_GetActualForce sample_store sample_force_motor = Some 6
   \<and> ChLinkMotorRotationTorque_GetActualTorque sample_store sample_torque_motor = Some 5"
proof -
  have hf: "f_force sample_force_motor = Ptr 0"
    by (simp add: sample_force_motor_def)
  have ht: "f_torque sample_torque_motor = Ptr 1"
    by (simp add: sample_torque_motor_def)
  have tf: "GetChTime sample_force_motor = 3"
    by (simp add: GetChTime_def sample_force_motor_def)
  have g0: "Get_y (sample_store 0) 3 = 6"
    by (simp add: sample_store_def)
  have g1: "Get_y (sample_store 1) t = 5" for t
    by (simp add: sample_store_def)
  from force_motor_reaction_exact [OF hf ht, of sample_store] hf ht tf g0 g1
  show ?thesis by simp
qed

section \<open>Setters and getters\<close>

text \<open>
  C9. Each setter and getter pair of the header round-trips: the getter returns the very
  pointer that was set (the same shared function object), and the offset getter returns the
  very number that was set.
\<close>

theorem setter_getter_roundtrip:
  "GetMotionFunction (SetMotionFunction mf m1) = mf
   \<and> ChLinkMotorLinearSpeed_GetSpeedFunction (ChLinkMotorLinearSpeed_SetSpeedFunction mf m2) = mf
   \<and> GetForceFunction (SetForceFunction mf m3) = mf
   \<and> GetAngleFunction (SetAngleFunction mf m4) = mf
   \<and> ChLinkMotorRotationSpeed_GetSpeedFunction
       (ChLinkMotorRotationSpeed_SetSpeedFunction mf m5) = mf
   \<and> GetTorqueFunction (SetTorqueFunction mf m6) = mf
   \<and> ChLinkMotorLinearPosition_GetMotionOffset
       (ChLinkMotorLinearPosition_SetMotionOffset mo m1) = mo
   \<and> ChLinkMotorLinearSpeed_GetMotionOffset
       (ChLinkMotorLinearSpeed_SetMotionOffset mo m2) = mo
   \<and> ChLinkMotorRotationAngle_GetMotionOffset
       (ChLinkMotorRotationAngle_SetMotionOffset mo m4) = mo
   \<and> GetAngleOffset (SetAngleOffset mo m5) = mo"
  by (simp add: GetMotionFunction_def SetMotionFunction_def
      ChLinkMotorLinearSpeed_GetSpeedFunction_def ChLinkMotorLinearSpeed_SetSpeedFunction_def
      GetForceFunction_def SetForceFunction_def GetAngleFunction_def SetAngleFunction_def
      ChLinkMotorRotationSpeed_GetSpeedFunction_def ChLinkMotorRotationSpeed_SetSpeedFunction_def
      GetTorqueFunction_def SetTorqueFunction_def
      ChLinkMotorLinearPosition_GetMotionOffset_def ChLinkMotorLinearPosition_SetMotionOffset_def
      ChLinkMotorLinearSpeed_GetMotionOffset_def ChLinkMotorLinearSpeed_SetMotionOffset_def
      ChLinkMotorRotationAngle_GetMotionOffset_def ChLinkMotorRotationAngle_SetMotionOffset_def
      GetAngleOffset_def SetAngleOffset_def)

section \<open>The drift-avoidance flag\<close>

text \<open>
  C10. \<^verbatim>\<open>SetAvoidPositionDrift(b)\<close> and \<^verbatim>\<open>SetAvoidAngleDrift(b)\<close> write the flag and nothing
  else: the getter then returns \<open>b\<close>; the speed function, the offset, the variable block and
  the auxiliary states \<^verbatim>\<open>aux_dt\<close>, \<^verbatim>\<open>aux_dtdt\<close> are the old ones; and writing the old flag back
  gives the motor one started from, so no other member has changed either.
\<close>

theorem SetAvoidDrift_frame:
  "GetAvoidPositionDrift (SetAvoidPositionDrift b m) = b
   \<and> ChLinkMotorLinearSpeed_GetSpeedFunction (SetAvoidPositionDrift b m)
       = ChLinkMotorLinearSpeed_GetSpeedFunction m
   \<and> ChLinkMotorLinearSpeed_GetMotionOffset (SetAvoidPositionDrift b m)
       = ChLinkMotorLinearSpeed_GetMotionOffset m
   \<and> ChLinkMotorLinearSpeed.variable (SetAvoidPositionDrift b m)
       = ChLinkMotorLinearSpeed.variable m
   \<and> ChLinkMotorLinearSpeed.aux_dt (SetAvoidPositionDrift b m) = ChLinkMotorLinearSpeed.aux_dt m
   \<and> ChLinkMotorLinearSpeed.aux_dtdt (SetAvoidPositionDrift b m)
       = ChLinkMotorLinearSpeed.aux_dtdt m
   \<and> SetAvoidPositionDrift (GetAvoidPositionDrift m) (SetAvoidPositionDrift b m) = m
   \<and> GetAvoidAngleDrift (SetAvoidAngleDrift b r) = b
   \<and> ChLinkMotorRotationSpeed_GetSpeedFunction (SetAvoidAngleDrift b r)
       = ChLinkMotorRotationSpeed_GetSpeedFunction r
   \<and> GetAngleOffset (SetAvoidAngleDrift b r) = GetAngleOffset r
   \<and> ChLinkMotorRotationSpeed.variable (SetAvoidAngleDrift b r)
       = ChLinkMotorRotationSpeed.variable r
   \<and> ChLinkMotorRotationSpeed.aux_dt (SetAvoidAngleDrift b r) = ChLinkMotorRotationSpeed.aux_dt r
   \<and> ChLinkMotorRotationSpeed.aux_dtdt (SetAvoidAngleDrift b r)
       = ChLinkMotorRotationSpeed.aux_dtdt r
   \<and> SetAvoidAngleDrift (GetAvoidAngleDrift r) (SetAvoidAngleDrift b r) = r"
  by (simp add: GetAvoidPositionDrift_def SetAvoidPositionDrift_def
      ChLinkMotorLinearSpeed_GetSpeedFunction_def ChLinkMotorLinearSpeed_GetMotionOffset_def
      GetAvoidAngleDrift_def SetAvoidAngleDrift_def
      ChLinkMotorRotationSpeed_GetSpeedFunction_def GetAngleOffset_def)

section \<open>The number of coordinates of a speed motor\<close>

text \<open>
  C4, as stated, at the sample motors: after \<^verbatim>\<open>SetAvoidPositionDrift(false)\<close> the motor does
  not report one coordinate fewer than after \<^verbatim>\<open>SetAvoidPositionDrift(true)\<close>, so its share of
  the state vector has not shrunk; the same for \<^verbatim>\<open>SetAvoidAngleDrift\<close>.
\<close>

theorem drift_toggle_shrinks_state_counterexample:
  "ChLinkMotorLinearSpeed_GetDOF (SetAvoidPositionDrift False sample_linear_speed_motor)
     \<noteq> ChLinkMotorLinearSpeed_GetDOF (SetAvoidPositionDrift True sample_linear_speed_motor) - 1
   \<and> ChLinkMotorRotationSpeed_GetDOF (SetAvoidAngleDrift False sample_rotation_speed_motor)
     \<noteq> ChLinkMotorRotationSpeed_GetDOF (SetAvoidAngleDrift True sample_rotation_speed_motor) - 1"
  by (simp add: ChLinkMotorLinearSpeed_GetDOF_def ChLinkMotorRotationSpeed_GetDOF_def)

text \<open>
  C4, amended. Whatever the flag is set to, \<^verbatim>\<open>GetDOF()\<close> returns 1: a speed motor reports the
  same single coordinate to the integrator with drift-avoidance disabled as with it enabled.
\<close>

theorem drift_toggle_keeps_GetDOF:
  "ChLinkMotorLinearSpeed_GetDOF (SetAvoidPositionDrift b m) = 1
   \<and> ChLinkMotorLinearSpeed_GetDOF (SetAvoidPositionDrift False m)
       = ChLinkMotorLinearSpeed_GetDOF (SetAvoidPositionDrift True m)
   \<and> ChLinkMotorRotationSpeed_GetDOF (SetAvoidAngleDrift b r) = 1
   \<and> ChLinkMotorRotationSpeed_GetDOF (SetAvoidAngleDrift False r)
       = ChLinkMotorRotationSpeed_GetDOF (SetAvoidAngleDrift True r)"
  by (simp add: ChLinkMotorLinearSpeed_GetDOF_def ChLinkMotorRotationSpeed_GetDOF_def)

section \<open>Position and angle motors\<close>

text \<open>
  C1. For a position motor driven by the function at address \<open>a\<close> and an angle motor driven
  by the function at address \<open>b\<close>, the row of an assembly pass has the violation
  \<open>actual(t) - f(t) - offset\<close> and the term \<open>Ct = -f'(t)\<close>. Consequently the violation is
  within a tolerance exactly when the actual coordinate is within that tolerance of
  \<open>f(t) + offset\<close>: a solve that has brought the row within tolerance has brought the
  coordinate onto its target within the same tolerance, at every time.
\<close>

theorem position_motor_row:
  assumes "f_pos m = Ptr a" and "f_rot r = Ptr b"
  shows "ChLinkMotorLinearPosition_Update_C st m
           = Some (GetActualPos m - Get_y (st a) (GetChTime m)
                   - ChLinkMotorLinearPosition_GetMotionOffset m)
       \<and> ChLinkMotorLinearPosition_IntLoadConstraint_Ct st m
           = Some (- Get_y_dx (st a) (GetChTime m))
       \<and> (case ChLinkMotorLinearPosition_Update_C st m of
             None \<Rightarrow> False | Some C \<Rightarrow> \<bar>C\<bar> \<le> tol)
           = (\<bar>GetActualPos m
               - (Get_y (st a) (GetChTime m) + ChLinkMotorLinearPosition_GetMotionOffset m)\<bar>
              \<le> tol)
       \<and> ChLinkMotorRotationAngle_Update_C st r
           = Some (GetActualRot r - Get_y (st b) (GetChTime r)
                   - ChLinkMotorRotationAngle_GetMotionOffset r)
       \<and> ChLinkMotorRotationAngle_IntLoadConstraint_Ct st r
           = Some (- Get_y_dx (st b) (GetChTime r))
       \<and> (case ChLinkMotorRotationAngle_Update_C st r of
             None \<Rightarrow> False | Some C \<Rightarrow> \<bar>C\<bar> \<le> tol)
           = (\<bar>GetActualRot r
               - (Get_y (st b) (GetChTime r) + ChLinkMotorRotationAngle_GetMotionOffset r)\<bar>
              \<le> tol)"
proof -
  have lin: "ChLinkMotorLinearPosition_Update_C st m
      = Some (GetActualPos m - Get_y (st a) (GetChTime m)
              - ChLinkMotorLinearPosition_GetMotionOffset m)"
    using assms(1)
    by (simp add: ChLinkMotorLinearPosition_Update_C_def
        ChLinkMotorLinearPosition_GetMotionOffset_def)
  have rot: "ChLinkMotorRotationAngle_Update_C st r
      = Some (GetActualRot r - Get_y (st b) (GetChTime r)
              - ChLinkMotorRotationAngle_GetMotionOffset r)"
    using assms(2)
    by (simp add: ChLinkMotorRotationAngle_Update_C_def
        ChLinkMotorRotationAngle_GetMotionOffset_def)
  have lin_ct: "ChLinkMotorLinearPosition_IntLoadConstraint_Ct st m
      = Some (- Get_y_dx (st a) (GetChTime m))"
    using assms(1) by (simp add: ChLinkMotorLinearPosition_IntLoadConstraint_Ct_def)
  have rot_ct: "ChLinkMotorRotationAngle_IntLoadConstraint_Ct st r
      = Some (- Get_y_dx (st b) (GetChTime r))"
    using assms(2) by (simp add: ChLinkMotorRotationAngle_IntLoadConstraint_Ct_def)
  have alg: "p - f - off = p - (f + off)" for p f off :: real
    by simp
  show ?thesis
    unfolding lin rot lin_ct rot_ct alg by simp
qed

theorem position_motor_row_witness:
  "f_pos sample_position_motor = Ptr 0 \<and> f_rot sample_angle_motor = Ptr 1
   \<and> ChLinkMotorLinearPosition_Update_C sample_store sample_position_motor = Some (1 / 2000)
   \<and> ChLinkMotorLinearPosition_IntLoadConstraint_Ct sample_store sample_position_motor
       = Some (- 2)
   \<and> \<bar>GetActualPos sample_position_motor - (6 + 1)\<bar> \<le> 1 / 1000
   \<and> ChLinkMotorRotationAngle_Update_C sample_store sample_angle_motor = Some 0
   \<and> ChLinkMotorRotationAngle_IntLoadConstraint_Ct sample_store sample_angle_motor = Some 0"
proof -
  have hp: "f_pos sample_position_motor = Ptr 0"
    by (simp add: sample_position_motor_def)
  have hr: "f_rot sample_angle_motor = Ptr 1"
    by (simp add: sample_angle_motor_def)
  have vals:
    "GetChTime sample_position_motor = 3" "GetActualPos sample_position_motor = 7 + 1 / 2000"
    "ChLinkMotorLinearPosition_GetMotionOffset sample_position_motor = 1"
    "GetChTime sample_angle_motor = 3" "GetActualRot sample_angle_motor = 11 / 2"
    "ChLinkMotorRotationAngle_GetMotionOffset sample_angle_motor = 1 / 2"
    by (simp_all add: GetChTime_def GetActualPos_def GetActualRot_def
        ChLinkMotorLinearPosition_GetMotionOffset_def
        ChLinkMotorRotationAngle_GetMotionOffset_def
        sample_position_motor_def sample_angle_motor_def)
  have fs:
    "Get_y (sample_store 0) 3 = 6" "Get_y_dx (sample_store 0) 3 = 2"
    "Get_y (sample_store 1) 3 = 5" "Get_y_dx (sample_store 1) 3 = 0"
    by (simp_all add: sample_store_def)
  from position_motor_row [OF hp hr, of sample_store "1 / 1000"]
  show ?thesis
    unfolding vals fs using hp hr by simp
qed

section \<open>The auxiliary variable of a speed motor\<close>

lemma LS_do_variable:
  "ChLinkMotorLinearSpeed.variable (ChLinkMotorLinearSpeed_do c m)
     = ChLinkMotorLinearSpeed.variable m"
  by (cases c)
    (simp_all add: ChLinkMotorLinearSpeed_SetSpeedFunction_def
      ChLinkMotorLinearSpeed_SetMotionOffset_def SetAvoidPositionDrift_def)

lemma LS_run_variable:
  "ChLinkMotorLinearSpeed.variable (ChLinkMotorLinearSpeed_run cs m)
     = ChLinkMotorLinearSpeed.variable m"
  unfolding ChLinkMotorLinearSpeed_run_def
  by (induction cs arbitrary: m) (simp_all add: LS_do_variable)

lemma RS_do_variable:
  "ChLinkMotorRotationSpeed.variable (ChLinkMotorRotationSpeed_do c m)
     = ChLinkMotorRotationSpeed.variable m"
  by (cases c)
    (simp_all add: ChLinkMotorRotationSpeed_SetSpeedFunction_def
      SetAngleOffset_def SetAvoidAngleDrift_def)

lemma RS_run_variable:
  "ChLinkMotorRotationSpeed.variable (ChLinkMotorRotationSpeed_run cs m)
     = ChLinkMotorRotationSpeed.variable m"
  unfolding ChLinkMotorRotationSpeed_run_def
  by (induction cs arbitrary: m) (simp_all add: RS_do_variable)

text \<open>
  C5. Take a speed motor as its constructor leaves it and run any sequence of calls of its
  public setters. At every such moment of its life the motor reports one coordinate
  (\<^verbatim>\<open>GetDOF() == 1\<close>), and \<^verbatim>\<open>InjectVariables\<close> adds to the descriptor exactly one block, the
  motor's own, with one unknown of mass 1. The block is a member held by value, hence a
  field of every motor value: it exists from construction and for as long as the motor.
\<close>

theorem speed_motor_one_auxiliary_dof:
  "ChLinkMotorLinearSpeed_GetDOF
     (ChLinkMotorLinearSpeed_run cs (ChLinkMotorLinearSpeed_ctor raw)) = 1
   \<and> ChLinkMotorLinearSpeed_InjectVariables
       (ChLinkMotorLinearSpeed_run cs (ChLinkMotorLinearSpeed_ctor raw)) mdescriptor
       = mdescriptor @ [\<lparr>ndof = 1, mass = 1\<rparr>]
   \<and> ChLinkMotorRotationSpeed_GetDOF
       (ChLinkMotorRotationSpeed_run ds (ChLinkMotorRotationSpeed_ctor raw')) = 1
   \<and> ChLinkMotorRotationSpeed_InjectVariables
       (ChLinkMotorRotationSpeed_run ds (ChLinkMotorRotationSpeed_ctor raw')) mdescriptor
       = mdescriptor @ [\<lparr>ndof = 1, mass = 1\<rparr>]"
  by (simp add: ChLinkMotorLinearSpeed_GetDOF_def ChLinkMotorRotationSpeed_GetDOF_def
      ChLinkMotorLinearSpeed_InjectVariables_def ChLinkMotorRotationSpeed_InjectVariables_def
      LS_run_variable RS_run_variable
      ChLinkMotorLinearSpeed_ctor_def ChLinkMotorRotationSpeed_ctor_def)

section \<open>The default of the drift-avoidance flag\<close>

lemma LS_do_flag:
  "\<not> LS_sets_drift c \<Longrightarrow>
   avoid_position_drift (ChLinkMotorLinearSpeed_do c m) = avoid_position_drift m"
  by (cases c)
    (simp_all add: ChLinkMotorLinearSpeed_SetSpeedFunction_def
      ChLinkMotorLinearSpeed_SetMotionOffset_def)

lemma LS_run_flag:
  "\<not> list_ex LS_sets_drift cs \<Longrightarrow>
   avoid_position_drift (ChLinkMotorLinearSpeed_run cs m) = avoid_position_drift m"
  unfolding ChLinkMotorLinearSpeed_run_def
  by (induction cs arbitrary: m) (simp_all add: LS_do_flag)

lemma RS_do_flag:
  "\<not> RS_sets_drift c \<Longrightarrow>
   avoid_angle_drift (ChLinkMotorRotationSpeed_do c m) = avoid_angle_drift m"
  by (cases c)
    (simp_all add: ChLinkMotorRotationSpeed_SetSpeedFunction_def SetAngleOffset_def)

lemma RS_run_flag:
  "\<not> list_ex RS_sets_drift cs \<Longrightarrow>
   avoid_angle_drift (ChLinkMotorRotationSpeed_run cs m) = avoid_angle_drift m"
  unfolding ChLinkMotorRotationSpeed_run_def
  by (induction cs arbitrary: m) (simp_all add: RS_do_flag)

text \<open>
  C8. Take a speed motor as its default constructor leaves it and run any sequence of
  setter calls none of which is \<^verbatim>\<open>SetAvoidPositionDrift\<close> (\<^verbatim>\<open>SetAvoidAngleDrift\<close>): the
  getter of the flag returns true.
\<close>

theorem drift_avoidance_enabled_by_default:
  assumes "\<not> list_ex LS_sets_drift cs" and "\<not> list_ex RS_sets_drift ds"
  shows "GetAvoidPositionDrift
           (ChLinkMotorLinearSpeed_run cs (ChLinkMotorLinearSpeed_ctor raw))
       \<and> GetAvoidAngleDrift
           (ChLinkMotorRotationSpeed_run ds (ChLinkMotorRotationSpeed_ctor raw'))"
  using assms
  by (simp add: GetAvoidPositionDrift_def GetAvoidAngleDrift_def LS_run_flag RS_run_flag
      ChLinkMotorLinearSpeed_ctor_def ChLinkMotorRotationSpeed_ctor_def)

theorem drift_avoidance_enabled_by_default_witness:
  "\<not> list_ex LS_sets_drift [LS_SetSpeedFunction (Ptr 1), LS_SetMotionOffset 2]
   \<and> \<not> list_ex RS_sets_drift [RS_SetAngleOffset 2, RS_SetSpeedFunction nullptr]
   \<and> GetAvoidPositionDrift
       (ChLinkMotorLinearSpeed_run [LS_SetSpeedFunction (Ptr 1), LS_SetMotionOffset 2]
          (ChLinkMotorLinearSpeed_ctor sample_linear_speed_motor))
   \<and> GetAvoidAngleDrift
       (ChLinkMotorRotationSpeed_run [RS_SetAngleOffset 2, RS_SetSpeedFunction nullptr]
          (ChLinkMotorRotationSpeed_ctor sample_rotation_speed_motor))"
proof -
  have hl: "\<not> list_ex LS_sets_drift [LS_SetSpeedFunction (Ptr 1), LS_SetMotionOffset 2]"
    by simp
  have hr: "\<not> list_ex RS_sets_drift [RS_SetAngleOffset 2, RS_SetSpeedFunction nullptr]"
    by simp
  from drift_avoidance_enabled_by_default
    [OF hl hr, of sample_linear_speed_motor sample_rotation_speed_motor] hl hr
  show ?thesis by simp
qed

section \<open>Guide and spindle constraints never lock the motorized axis\<close>

lemma DOF_UNIV: "(UNIV :: DOF set) = {TX, TY, TZ, RX, RY, RZ}"
proof -
  have "d \<in> {TX, TY, TZ, RX, RY, RZ}" for d :: DOF
    by (cases d) simp_all
  then show ?thesis by blast
qed

text \<open>
  C7. Whatever flags (or whatever variant, under whatever table from variants to flags) the
  guide setter of a linear motor is called with, and whatever the motor was before: the
  flag of the translation along X is left as it was, the translation along X is not among
  the movements the guide locks, and with all five flags set the guide locks everything
  except the translation along X, so this is the one movement outside the lock-pattern.
  The same holds for the spindle setter of a rotational motor and the rotation about Z.
\<close>

theorem actuated_axis_never_locked:
  "c_x (SetGuideConstraint mc_y mc_z mc_rx mc_ry mc_rz m) = c_x m
   \<and> TX \<notin> guide_locked (SetGuideConstraint mc_y mc_z mc_rx mc_ry mc_rz m)
   \<and> c_x (SetGuideConstraint_variant gpattern g m) = c_x m
   \<and> TX \<notin> guide_locked (SetGuideConstraint_variant gpattern g m)
   \<and> guide_locked (SetGuideConstraint True True True True True m) = UNIV - {TX}
   \<and> c_rz (SetSpindleConstraint mc_x mc_y mc_z mc_rx mc_ry r) = c_rz r
   \<and> RZ \<notin> spindle_locked (SetSpindleConstraint mc_x mc_y mc_z mc_rx mc_ry r)
   \<and> c_rz (SetSpindleConstraint_variant spattern s r) = c_rz r
   \<and> RZ \<notin> spindle_locked (SetSpindleConstraint_variant spattern s r)
   \<and> spindle_locked (SetSpindleConstraint True True True True True r) = UNIV - {RZ}"
proof -
  have g: "c_x (SetGuideConstraint a b c d e m) = c_x m
      \<and> TX \<notin> guide_locked (SetGuideConstraint a b c d e m)" for a b c d e
    by (simp add: SetGuideConstraint_def guide_locked_def)
  have s: "c_rz (SetSpindleConstraint a b c d e r) = c_rz r
      \<and> RZ \<notin> spindle_locked (SetSpindleConstraint a b c d e r)" for a b c d e
    by (simp add: SetSpindleConstraint_def spindle_locked_def)
  have gv: "c_x (SetGuideConstraint_variant gpattern g m) = c_x m
      \<and> TX \<notin> guide_locked (SetGuideConstraint_variant gpattern g m)"
    unfolding SetGuideConstraint_variant_def
    by (cases "gpattern g") (simp add: g)
  have sv: "c_rz (SetSpindleConstraint_variant spattern s r) = c_rz r
      \<and> RZ \<notin> spindle_locked (SetSpindleConstraint_variant spattern s r)"
    unfolding SetSpindleConstraint_variant_def
    by (cases "spattern s") (simp add: s)
  have gall: "guide_locked (SetGuideConstraint True True True True True m) = UNIV - {TX}"
    unfolding DOF_UNIV by (auto simp add: SetGuideConstraint_def guide_locked_def)
  have sall: "spindle_locked (SetSpindleConstraint True True True True True r) = UNIV - {RZ}"
    unfolding DOF_UNIV by (auto simp add: SetSpindleConstraint_def spindle_locked_def)
  from g s gv sv gall sall show ?thesis by blast
qed

end
